theory Spec2Isabelle
  imports Main "HOL-Library.Log_Nat"
begin

section \<open>The number type of the program\<close>

text \<open>
  The scorer of \<^verbatim>\<open>src/components/Analyzer.tsx\<close> computes with the \<^verbatim>\<open>number\<close> type of
  TypeScript: IEEE 754 binary64 values. A finite value is modelled by the rational it
  denotes; the two infinities and NaN are constructors of their own. Every arithmetic
  operation computes the exact rational result and rounds it to the nearest binary64
  value, ties to the even significand (\<open>fl\<close>). The sign of a zero is not modelled: no
  operation of the scorer distinguishes \<open>-0\<close> from \<open>+0\<close>.
\<close>

datatype number = Num rat | PosInfinity | NegInfinity | NaN

text \<open>\<open>pow2 k\<close> is \<open>2\<close> to the integer power \<open>k\<close>.\<close>

definition pow2 :: "int \<Rightarrow> rat" where
  "pow2 k = (if 0 \<le> k then of_int (2 ^ nat k) else 1 / of_int (2 ^ nat (- k)))"

text \<open>
  \<open>expo q\<close>, for \<open>q > 0\<close>, is the exponent \<open>e\<close> with \<open>2\<^sup>e \<le> q < 2\<^sup>e\<^sup>+\<^sup>1\<close>: the bit length of
  the integer part when \<open>q \<ge> 1\<close>, and found through the reciprocal otherwise.
\<close>

definition expo :: "rat \<Rightarrow> int" where
  "expo q =
     (if 1 \<le> q then bitlen \<lfloor>q\<rfloor> - 1
      else (let k = bitlen \<lfloor>1 / q\<rfloor> - 1
            in if 1 / q = pow2 k then - k else - k - 1))"

text \<open>Rounding to the nearest integer, a tie going to the even neighbour.\<close>

definition round_half_even :: "rat \<Rightarrow> int" where
  "round_half_even x =
     (let f = \<lfloor>x\<rfloor>; d = x - of_int f
      in if d < 1 / 2 then f
         else if 1 / 2 < d then f + 1
         else if even f then f else f + 1)"

text \<open>
  \<open>fl q\<close> rounds the exact value \<open>q\<close> to binary64: the significand has 53 bits, the least
  exponent of a unit in the last place is \<open>-1074\<close> (subnormal values), and a rounded
  magnitude of \<open>2\<^sup>1\<^sup>0\<^sup>2\<^sup>4\<close> or more overflows to the infinity of the sign of \<open>q\<close>.
\<close>

definition fl :: "rat \<Rightarrow> number" where
  "fl q =
     (if q = 0 then Num 0
      else (let a = \<bar>q\<bar>;
                p = max (expo a - 52) (- 1074);
                r = of_int (round_half_even (a / pow2 p)) * pow2 p
            in if pow2 1024 \<le> r then (if 0 < q then PosInfinity else NegInfinity)
               else Num (if 0 < q then r else - r)))"

text \<open>A numeric literal of the source denotes the binary64 value nearest to it.\<close>

definition lit :: "rat \<Rightarrow> number" where
  "lit q = fl q"

text \<open>The operators \<^verbatim>\<open>+\<close>, \<^verbatim>\<open>-\<close>, \<^verbatim>\<open>*\<close> and \<^verbatim>\<open>/\<close> on numbers.\<close>

fun jsadd :: "number \<Rightarrow> number \<Rightarrow> number" where
  "jsadd NaN _ = NaN"
| "jsadd _ NaN = NaN"
| "jsadd PosInfinity NegInfinity = NaN"
| "jsadd NegInfinity PosInfinity = NaN"
| "jsadd PosInfinity _ = PosInfinity"
| "jsadd _ PosInfinity = PosInfinity"
| "jsadd NegInfinity _ = NegInfinity"
| "jsadd _ NegInfinity = NegInfinity"
| "jsadd (Num a) (Num b) = fl (a + b)"

fun jsneg :: "number \<Rightarrow> number" where
  "jsneg (Num a) = Num (- a)"
| "jsneg PosInfinity = NegInfinity"
| "jsneg NegInfinity = PosInfinity"
| "jsneg NaN = NaN"

definition jssub :: "number \<Rightarrow> number \<Rightarrow> number" where
  "jssub x y = jsadd x (jsneg y)"

text \<open>The sign of a number that is not NaN: \<open>-1\<close>, \<open>0\<close> or \<open>1\<close>.\<close>

fun sign_of :: "number \<Rightarrow> int" where
  "sign_of (Num a) = (if a < 0 then - 1 else if a = 0 then 0 else 1)"
| "sign_of PosInfinity = 1"
| "sign_of NegInfinity = - 1"
| "sign_of NaN = 0"

definition infinity_of_sign :: "int \<Rightarrow> number" where
  "infinity_of_sign s = (if 0 < s then PosInfinity else NegInfinity)"

fun jsmul :: "number \<Rightarrow> number \<Rightarrow> number" where
  "jsmul NaN _ = NaN"
| "jsmul _ NaN = NaN"
| "jsmul (Num a) (Num b) = fl (a * b)"
| "jsmul x y =
     (if sign_of x = 0 \<or> sign_of y = 0 then NaN
      else infinity_of_sign (sign_of x * sign_of y))"

text \<open>
  Division by zero is not an error in the source language: a non-zero dividend gives an
  infinity, \<open>0 / 0\<close> gives NaN. (With the sign of zero not modelled, the zero divisor
  counts as \<open>+0\<close>, which is what an array length of \<open>0\<close> is.)
\<close>

fun jsdiv :: "number \<Rightarrow> number \<Rightarrow> number" where
  "jsdiv NaN _ = NaN"
| "jsdiv _ NaN = NaN"
| "jsdiv (Num a) (Num b) =
     (if b = 0 then (if a = 0 then NaN else infinity_of_sign (sign_of (Num a)))
      else fl (a / b))"
| "jsdiv (Num a) _ = Num 0"
| "jsdiv x (Num b) = infinity_of_sign (sign_of x * (if b < 0 then - 1 else 1))"
| "jsdiv _ _ = NaN"

text \<open>
  \<^verbatim>\<open>Math.min\<close> and \<^verbatim>\<open>Math.max\<close> of two arguments: NaN if either argument is NaN.
\<close>

fun js_le :: "number \<Rightarrow> number \<Rightarrow> bool" where
  "js_le NaN _ = False"
| "js_le _ NaN = False"
| "js_le NegInfinity _ = True"
| "js_le _ PosInfinity = True"
| "js_le (Num a) (Num b) = (a \<le> b)"
| "js_le _ _ = False"

definition Math_min :: "number \<Rightarrow> number \<Rightarrow> number" where
  "Math_min x y = (if x = NaN \<or> y = NaN then NaN else if js_le x y then x else y)"

definition Math_max :: "number \<Rightarrow> number \<Rightarrow> number" where
  "Math_max x y = (if x = NaN \<or> y = NaN then NaN else if js_le x y then y else x)"

text \<open>\<^verbatim>\<open>Math.round\<close>: the nearest integer, a tie going towards \<open>+\<infinity>\<close>.\<close>

fun Math_round :: "number \<Rightarrow> number" where
  "Math_round (Num a) = Num (of_int \<lfloor>a + 1 / 2\<rfloor>)"
| "Math_round x = x"

section \<open>Strings\<close>

text \<open>
  A string of the program is modelled as a list of characters with codes below 256
  (the Latin-1 range of the UTF-16 code units of the source language).
\<close>

text \<open>
  The characters matched by \<^verbatim>\<open>\s\<close> in a regular expression and removed by \<^verbatim>\<open>trim\<close>: tab,
  line feed, vertical tab, form feed, carriage return, space and no-break space.
\<close>

definition is_space :: "char \<Rightarrow> bool" where
  "is_space c = ((of_char c :: nat) \<in> {9, 10, 11, 12, 13, 32, 160})"

text \<open>
  \<^verbatim>\<open>toLowerCase\<close>: the letters \<open>A\<close> to \<open>Z\<close> and the accented capitals \<open>0xC0\<close> to \<open>0xDE\<close> (other
  than the multiplication sign \<open>0xD7\<close>) move up by 32; every other character stays.
\<close>

definition toLowerCase_char :: "char \<Rightarrow> char" where
  "toLowerCase_char c =
     (let n = (of_char c :: nat)
      in if (65 \<le> n \<and> n \<le> 90) \<or> (192 \<le> n \<and> n \<le> 222 \<and> n \<noteq> 215)
         then char_of (n + 32) else c)"

definition toLowerCase :: "string \<Rightarrow> string" where
  "toLowerCase s = map toLowerCase_char s"

text \<open>\<^verbatim>\<open>s.includes(t)\<close>: \<open>t\<close> occurs in \<open>s\<close> as a contiguous substring.\<close>

fun starts_with :: "string \<Rightarrow> string \<Rightarrow> bool" where
  "starts_with s [] = True"
| "starts_with [] (d # t) = False"
| "starts_with (c # s) (d # t) = (c = d \<and> starts_with s t)"

fun string_includes :: "string \<Rightarrow> string \<Rightarrow> bool" where
  "string_includes [] t = (t = [])"
| "string_includes (c # s) t = (starts_with (c # s) t \<or> string_includes s t)"

text \<open>
  \<^verbatim>\<open>s.split(/\s+/)\<close>: the pieces of \<open>s\<close> between maximal runs of white space. A run at
  the start or at the end of \<open>s\<close> leaves an empty piece there, and the empty string
  splits into one empty piece. \<open>cur\<close> is the piece being read.
\<close>

function split_from :: "string \<Rightarrow> string \<Rightarrow> string list" where
  "split_from cur [] = [cur]"
| "split_from cur (c # s) =
     (if is_space c then cur # split_from [] (dropWhile is_space s)
      else split_from (cur @ [c]) s)"
  by pat_completeness auto
termination
  by (relation "measure (\<lambda>(cur, s). length s)")
     (auto simp: length_dropWhile_le le_imp_less_Suc)

definition split_whitespace :: "string \<Rightarrow> string list" where
  "split_whitespace s = split_from [] s"

text \<open>\<^verbatim>\<open>s.trim()\<close>: white space removed at both ends.\<close>

definition trim :: "string \<Rightarrow> string" where
  "trim s = rev (dropWhile is_space (rev (dropWhile is_space s)))"

section \<open>Values and property lookup\<close>

text \<open>
  The values an expression of the scorer can take besides numbers: \<^verbatim>\<open>undefined\<close>, and
  an object or function (here always a member inherited from \<^verbatim>\<open>Object.prototype\<close>).
\<close>

datatype jsvalue = Undefined | NumberVal number | ObjectVal

text \<open>Truthiness, as tested by \<^verbatim>\<open>||\<close>: \<open>0\<close>, NaN and \<^verbatim>\<open>undefined\<close> are falsy.\<close>

fun truthy :: "jsvalue \<Rightarrow> bool" where
  "truthy Undefined = False"
| "truthy (NumberVal n) = (n \<noteq> Num 0 \<and> n \<noteq> NaN)"
| "truthy ObjectVal = True"

definition or_else :: "jsvalue \<Rightarrow> jsvalue \<Rightarrow> jsvalue" where
  "or_else a b = (if truthy a then a else b)"

text \<open>
  The conversion to a number that \<^verbatim>\<open>*=\<close> applies to its left operand. An inherited
  member of \<^verbatim>\<open>Object.prototype\<close> converts through its string form, which is no numeral.
\<close>

fun ToNumber :: "jsvalue \<Rightarrow> number" where
  "ToNumber Undefined = NaN"
| "ToNumber (NumberVal n) = n"
| "ToNumber ObjectVal = NaN"

text \<open>
  The members every object literal inherits from \<^verbatim>\<open>Object.prototype\<close>. Reading one of
  these names from an object literal that has no such own property yields the inherited
  function (for \<^verbatim>\<open>__proto__\<close>, the prototype object itself).
\<close>

definition Object_prototype :: "string list" where
  "Object_prototype =
     [''constructor'', ''hasOwnProperty'', ''isPrototypeOf'', ''propertyIsEnumerable'',
      ''toLocaleString'', ''toString'', ''valueOf'', ''__proto__'',
      ''__defineGetter__'', ''__defineSetter__'', ''__lookupGetter__'',
      ''__lookupSetter__'']"

text \<open>\<^verbatim>\<open>obj[key]\<close> for an object literal \<open>obj\<close> whose own properties are numbers.\<close>

definition get_property :: "(string \<times> number) list \<Rightarrow> string \<Rightarrow> jsvalue" where
  "get_property obj key =
     (case map_of obj key of
        Some v \<Rightarrow> NumberVal v
      | None \<Rightarrow> if key \<in> set Object_prototype then ObjectVal else Undefined)"

section \<open>The grammar check response\<close>

text \<open>
  The interfaces \<^verbatim>\<open>GrammarIssue\<close> and \<^verbatim>\<open>GrammarCheckResponse\<close> of
  \<^verbatim>\<open>src/services/grammarService.ts\<close>. The fields \<^verbatim>\<open>type\<close>, \<^verbatim>\<open>length\<close>, \<^verbatim>\<open>context\<close> and \<^verbatim>\<open>text\<close> carry
  a prefix here. \<^verbatim>\<open>message\<close> is optional as well, since the scorer reads it with \<^verbatim>\<open>?.\<close>.
\<close>

record GrammarIssue =
  issue_type :: string
  message :: "string option"
  offset :: nat
  issue_length :: nat
  replacements :: "string list"
  issue_context :: string
  severity :: string
  rule_id :: "string option"
  ai_explanation :: "string option"
  ai_suggestion :: "string option"

record GrammarCheckResponse =
  response_text :: string
  language :: string
  detected_language :: string
  issues :: "GrammarIssue list"
  issue_count :: nat
  suggestions_count :: nat
  corrected_text :: "string option"
  ai_overall_feedback :: "string option"

section \<open>The grammar score card\<close>

text \<open>
  \<^verbatim>\<open>GrammarScoreCard\<close> of \<^verbatim>\<open>src/components/Analyzer.tsx\<close>, lines 191 to 237: the part that
  computes \<^verbatim>\<open>grammarScore\<close>. Each definition carries the name of the source variable it
  computes.
\<close>

text \<open>
  Line 194:
  \<^verbatim>\<open>grammarResult.text.split(/\s+/).filter(w => w.length > 0).length\<close>.
\<close>

definition totalWords :: "string \<Rightarrow> nat" where
  "totalWords txt = length (filter (\<lambda>w. 0 < length w) (split_whitespace txt))"

text \<open>The object literal \<^verbatim>\<open>typeWeights\<close>, lines 201 to 207.\<close>

definition typeWeights :: "(string \<times> number) list" where
  "typeWeights =
     [(''spelling'', lit 2),
      (''grammar'', lit (3 / 2)),
      (''punctuation'', lit (4 / 5)),
      (''style'', lit (3 / 5)),
      (''capitalization'', lit (2 / 5))]"

text \<open>
  An optional-chaining test \<^verbatim>\<open>s?.f(..)\<close> used as a condition: \<^verbatim>\<open>undefined\<close>, hence falsy,
  when \<open>s\<close> is absent.
\<close>

fun opt_test :: "string option \<Rightarrow> (string \<Rightarrow> bool) \<Rightarrow> bool" where
  "opt_test None f = False"
| "opt_test (Some s) f = f s"

text \<open>\<^verbatim>\<open>isCapitalizationIssue\<close>, lines 210 to 215.\<close>

definition isCapitalizationIssue :: "GrammarIssue \<Rightarrow> bool" where
  "isCapitalizationIssue issue =
     (opt_test (message issue) (\<lambda>m. string_includes (toLowerCase m) ''capital'') \<or>
      opt_test (message issue) (\<lambda>m. string_includes (toLowerCase m) ''nakamalaking titik'') \<or>
      opt_test (rule_id issue) (\<lambda>r. string_includes r ''CAPITALIZATION'') \<or>
      opt_test (rule_id issue) (\<lambda>r. string_includes r ''PROPER_NOUN'') \<or>
      opt_test (rule_id issue) (\<lambda>r. string_includes r ''NAME_AFTER''))"

text \<open>
  The value of \<^verbatim>\<open>weight\<close> after lines 217 to 221, before the severity multiplier:
  \<^verbatim>\<open>0.4\<close> for a capitalization issue, \<^verbatim>\<open>typeWeights[issue.type] || 1.0\<close> otherwise. (The
  initial value \<open>1\<close> of line 198 is overwritten on both branches.)
\<close>

definition typeWeight :: "GrammarIssue \<Rightarrow> jsvalue" where
  "typeWeight issue =
     (if isCapitalizationIssue issue then NumberVal (lit (2 / 5))
      else or_else (get_property typeWeights (issue_type issue)) (NumberVal (lit 1)))"

text \<open>The factor of lines 224 to 230.\<close>

definition severityMultiplier :: "string \<Rightarrow> number" where
  "severityMultiplier sev =
     (if sev = ''error'' then lit (6 / 5)
      else if sev = ''warning'' then lit (4 / 5)
      else lit (1 / 2))"

text \<open>The value of \<^verbatim>\<open>weight\<close> at line 232, after \<^verbatim>\<open>weight *= ...\<close>.\<close>

definition issueWeight :: "GrammarIssue \<Rightarrow> number" where
  "issueWeight issue = jsmul (ToNumber (typeWeight issue)) (severityMultiplier (severity issue))"

text \<open>The \<^verbatim>\<open>reduce\<close> of lines 197 to 233, from the initial value \<open>0\<close>.\<close>

definition weightedErrors :: "GrammarIssue list \<Rightarrow> number" where
  "weightedErrors iss = foldl (\<lambda>sum issue. jsadd sum (issueWeight issue)) (lit 0) iss"

text \<open>
  Line 236; the division is evaluated only in the branch \<^verbatim>\<open>totalWords > 0\<close>. The word count
  is the length of an array, a natural number that the number type holds exactly.
\<close>

definition errorRate :: "GrammarIssue list \<Rightarrow> nat \<Rightarrow> number" where
  "errorRate iss n =
     (if 0 < n then jsmul (jsdiv (weightedErrors iss) (Num (of_nat n))) (lit 100)
      else lit 0)"

text \<open>Line 237, as a function of the issue list and of the word count.\<close>

definition grammarScore :: "GrammarIssue list \<Rightarrow> nat \<Rightarrow> number" where
  "grammarScore iss n = Math_max (lit 0) (Math_min (lit 100) (jssub (lit 100) (errorRate iss n)))"

text \<open>
  The score of the card for a response; \<^verbatim>\<open>null\<close> gives no card (line 192). The card shows
  \<^verbatim>\<open>Math.round(grammarScore)\<close> (line 264).
\<close>

fun GrammarScoreCard :: "GrammarCheckResponse option \<Rightarrow> number option" where
  "GrammarScoreCard None = None"
| "GrammarScoreCard (Some grammarResult) =
     Some (grammarScore (issues grammarResult) (totalWords (response_text grammarResult)))"

definition displayedScore :: "GrammarCheckResponse option \<Rightarrow> number option" where
  "displayedScore g = map_option Math_round (GrammarScoreCard g)"

subsection \<open>The second copy\<close>

text \<open>
  \<^verbatim>\<open>Analyzer.tsx\<close> holds a second definition of \<^verbatim>\<open>GrammarScoreCard\<close>, lines 1733 to 1774,
  translated here on its own from those lines.
\<close>

text \<open>Line 1736.\<close>

definition totalWords2 :: "string \<Rightarrow> nat" where
  "totalWords2 txt = length (filter (\<lambda>w. 0 < length w) (split_whitespace txt))"

text \<open>Lines 1741 to 1747.\<close>

definition typeWeights2 :: "(string \<times> number) list" where
  "typeWeights2 =
     [(''spelling'', lit 2),
      (''grammar'', lit (3 / 2)),
      (''punctuation'', lit (4 / 5)),
      (''style'', lit (3 / 5)),
      (''capitalization'', lit (2 / 5))]"

text \<open>Lines 1749 to 1754.\<close>

definition isCapitalizationIssue2 :: "GrammarIssue \<Rightarrow> bool" where
  "isCapitalizationIssue2 issue =
     (opt_test (message issue) (\<lambda>m. string_includes (toLowerCase m) ''capital'') \<or>
      opt_test (message issue) (\<lambda>m. string_includes (toLowerCase m) ''nakamalaking titik'') \<or>
      opt_test (rule_id issue) (\<lambda>r. string_includes r ''CAPITALIZATION'') \<or>
      opt_test (rule_id issue) (\<lambda>r. string_includes r ''PROPER_NOUN'') \<or>
      opt_test (rule_id issue) (\<lambda>r. string_includes r ''NAME_AFTER''))"

text \<open>Lines 1756 to 1760.\<close>

definition typeWeight2 :: "GrammarIssue \<Rightarrow> jsvalue" where
  "typeWeight2 issue =
     (if isCapitalizationIssue2 issue then NumberVal (lit (2 / 5))
      else or_else (get_property typeWeights2 (issue_type issue)) (NumberVal (lit 1)))"

text \<open>Lines 1762 to 1768.\<close>

definition issueWeight2 :: "GrammarIssue \<Rightarrow> number" where
  "issueWeight2 issue =
     (if severity issue = ''error'' then jsmul (ToNumber (typeWeight2 issue)) (lit (6 / 5))
      else if severity issue = ''warning'' then jsmul (ToNumber (typeWeight2 issue)) (lit (4 / 5))
      else jsmul (ToNumber (typeWeight2 issue)) (lit (1 / 2)))"

text \<open>Lines 1738 to 1771.\<close>

definition weightedErrors2 :: "GrammarIssue list \<Rightarrow> number" where
  "weightedErrors2 iss = foldl (\<lambda>sum issue. jsadd sum (issueWeight2 issue)) (lit 0) iss"

text \<open>Lines 1773 and 1774.\<close>

definition grammarScore2 :: "GrammarIssue list \<Rightarrow> nat \<Rightarrow> number" where
  "grammarScore2 iss n =
     (let errorRate = (if 0 < n then jsmul (jsdiv (weightedErrors2 iss) (Num (of_nat n))) (lit 100)
                       else lit 0)
      in Math_max (lit 0) (Math_min (lit 100) (jssub (lit 100) errorRate)))"

fun GrammarScoreCard2 :: "GrammarCheckResponse option \<Rightarrow> number option" where
  "GrammarScoreCard2 None = None"
| "GrammarScoreCard2 (Some grammarResult) =
     Some (grammarScore2 (issues grammarResult) (totalWords2 (response_text grammarResult)))"

section \<open>The scoring rule as the specification words it\<close>

text \<open>
  The specification gives a weight table for five issue types and a multiplier for three
  severities, lets an issue that indicates a capitalization problem count as type
  \<open>capitalization\<close>, and defines the score as
  \<open>clamp(100 - (\<Sum> weight / wordCount) \<times> 100, 0, 100)\<close>. These definitions follow that
  wording; they are partial where the tables are. The arithmetic is that of the program's
  number type, the sum running over the issues in their order. What indicates a
  capitalization problem is not said there, so the test of the source stands in for it.
\<close>

definition spec_typeWeight :: "string \<Rightarrow> number option" where
  "spec_typeWeight t =
     (if t = ''spelling'' then Some (lit 2)
      else if t = ''grammar'' then Some (lit (3 / 2))
      else if t = ''punctuation'' then Some (lit (4 / 5))
      else if t = ''style'' then Some (lit (3 / 5))
      else if t = ''capitalization'' then Some (lit (2 / 5))
      else None)"

definition spec_severityMultiplier :: "string \<Rightarrow> number option" where
  "spec_severityMultiplier v =
     (if v = ''error'' then Some (lit (6 / 5))
      else if v = ''warning'' then Some (lit (4 / 5))
      else if v = ''info'' then Some (lit (1 / 2))
      else None)"

definition spec_effectiveType :: "GrammarIssue \<Rightarrow> string" where
  "spec_effectiveType issue =
     (if isCapitalizationIssue issue then ''capitalization'' else issue_type issue)"

definition spec_weight :: "GrammarIssue \<Rightarrow> number option" where
  "spec_weight issue =
     (case spec_typeWeight (spec_effectiveType issue) of
        None \<Rightarrow> None
      | Some w \<Rightarrow>
          (case spec_severityMultiplier (severity issue) of
             None \<Rightarrow> None
           | Some m \<Rightarrow> Some (jsmul w m)))"

fun spec_weights :: "GrammarIssue list \<Rightarrow> number list option" where
  "spec_weights [] = Some []"
| "spec_weights (issue # iss) =
     (case spec_weight issue of
        None \<Rightarrow> None
      | Some w \<Rightarrow> map_option (\<lambda>ws. w # ws) (spec_weights iss))"

definition spec_sum :: "number list \<Rightarrow> number" where
  "spec_sum ws = foldl jsadd (lit 0) ws"

definition spec_clamp :: "number \<Rightarrow> number \<Rightarrow> number \<Rightarrow> number" where
  "spec_clamp x lo hi = Math_max lo (Math_min hi x)"

definition spec_GrammarScore :: "GrammarIssue list \<Rightarrow> nat \<Rightarrow> number option" where
  "spec_GrammarScore iss wordCount =
     map_option
       (\<lambda>ws. spec_clamp
          (jssub (lit 100) (jsmul (jsdiv (spec_sum ws) (Num (of_nat wordCount))) (lit 100)))
          (lit 0) (lit 100))
       (spec_weights iss)"

text \<open>
  The number of words of a text: the maximal runs of characters that are not white
  space. \<open>inw\<close> tells whether the character before was part of a word.
\<close>

fun count_words :: "bool \<Rightarrow> string \<Rightarrow> nat" where
  "count_words inw [] = 0"
| "count_words inw (c # s) =
     (if is_space c then count_words False s
      else (if inw then 0 else 1) + count_words True s)"

definition spec_wordCount :: "string \<Rightarrow> nat" where
  "spec_wordCount txt = count_words False txt"

text \<open>Two issues overlap when their character ranges share a position.\<close>

definition overlaps :: "GrammarIssue \<Rightarrow> GrammarIssue \<Rightarrow> bool" where
  "overlaps i j =
     (offset i < offset j + issue_length j \<and> offset j < offset i + issue_length i)"

text \<open>A number in the closed interval from \<open>0\<close> to \<open>100\<close>.\<close>

fun in_0_100 :: "number \<Rightarrow> bool" where
  "in_0_100 (Num r) = (0 \<le> r \<and> r \<le> 100)"
| "in_0_100 _ = False"

section \<open>Starting an analysis\<close>

text \<open>
  \<^verbatim>\<open>handleAnalyze\<close> of \<^verbatim>\<open>Analyzer.tsx\<close>, lines 764 to 848. The state holds the component
  state the handler reads or writes before its result handling, and \<open>requests\<close>, the
  calls to the analysis backend issued so far. What the backend answers is not decided
  by this repository's code, so it is an argument: the two analyses resolve and nothing
  later throws, or the analyses reject with an error, or they resolve and a later step
  of the \<^verbatim>\<open>try\<close> block throws. An error carries its \<^verbatim>\<open>message\<close>, if it has one; a resolved
  diagnosis carries its \<^verbatim>\<open>analyzed_text\<close>, if it has one.
\<close>

record SelectedFile =
  base64 :: string
  mimeType :: string
  file_name :: string

datatype request =
  AnalyzeStudentWork string "string option"
| ClassifyTextComplexity string "string option"
| CheckGrammar string

datatype backend =
  Completes "string option"
| Rejects "string option"
| ThrowsLater "string option" "string option"

record AnalyzerState =
  inputText :: string
  currentText :: string
  selectedFile :: "SelectedFile option"
  isLoading :: bool
  errorMessage :: "string option"
  requests :: "request list"

text \<open>Line 768: \<^verbatim>\<open>inputText || currentText\<close>; the empty string is falsy.\<close>

definition textToAnalyze :: "AnalyzerState \<Rightarrow> string" where
  "textToAnalyze st = (if inputText st \<noteq> [] then inputText st else currentText st)"

definition enter_text_message :: string where
  "enter_text_message = ''Please enter text or upload a document to analyze.''"

definition too_short_message :: string where
  "too_short_message = ''Text is too short. Please provide at least 15 characters for analysis.''"

definition content_too_short_message :: string where
  "content_too_short_message = ''The content is too short to analyze properly.''"

text \<open>The message chosen by the \<^verbatim>\<open>catch\<close> block, lines 837 to 842.\<close>

definition catch_message :: "string option \<Rightarrow> string" where
  "catch_message m =
     (if opt_test m (\<lambda>t. string_includes t ''too short'') then content_too_short_message
      else (case m of
              Some t \<Rightarrow> if t \<noteq> [] then t else ''An unexpected error occurred.''
            | None \<Rightarrow> ''An unexpected error occurred.''))"

text \<open>Lines 798 to 801: \<^verbatim>\<open>if (diag.analyzed_text) setCurrentText(diag.analyzed_text)\<close>.\<close>

definition take_analyzed_text :: "string option \<Rightarrow> AnalyzerState \<Rightarrow> AnalyzerState" where
  "take_analyzed_text a st =
     (case a of
        Some t \<Rightarrow> if t \<noteq> [] then st\<lparr>currentText := t\<rparr> else st
      | None \<Rightarrow> st)"

definition handleAnalyze :: "backend \<Rightarrow> AnalyzerState \<Rightarrow> AnalyzerState" where
  "handleAnalyze env st =
     (let st1 = st\<lparr>errorMessage := None\<rparr>;
          txt = textToAnalyze st
      in if trim txt = [] \<and> selectedFile st = None
           then st1\<lparr>errorMessage := Some enter_text_message\<rparr>
         else if selectedFile st = None \<and> length (trim txt) < 15
           then st1\<lparr>errorMessage := Some too_short_message\<rparr>
         else if isLoading st then st1
         else
           (let image = map_option base64 (selectedFile st);
                st2 = st1\<lparr>isLoading := True, currentText := txt, inputText := [],
                        requests := requests st @
                          [AnalyzeStudentWork txt image, ClassifyTextComplexity txt image,
                           CheckGrammar txt]\<rparr>;
                st3 = (case env of
                         Completes a \<Rightarrow> take_analyzed_text a st2
                       | Rejects m \<Rightarrow> st2\<lparr>errorMessage := Some (catch_message m)\<rparr>
                       | ThrowsLater a m \<Rightarrow>
                           (take_analyzed_text a st2)\<lparr>errorMessage := Some (catch_message m)\<rparr>)
            in st3\<lparr>isLoading := False, selectedFile := None\<rparr>))"

text \<open>The request has failed with an error that says the text is too short.\<close>

definition too_short_error :: "AnalyzerState \<Rightarrow> bool" where
  "too_short_error st = opt_test (errorMessage st) (\<lambda>m. string_includes m ''too short'')"

section \<open>The vocabulary classifier\<close>

text \<open>
  The word groups of a diagnosis as \<^verbatim>\<open>src/types.ts\<close> declares them (\<^verbatim>\<open>cefrWordGroups\<close> and
  \<^verbatim>\<open>cefrDistribution\<close> of \<^verbatim>\<open>LinguisticMetrics\<close>), with the six bands of the scale.
\<close>

datatype cefr_band = A1 | A2 | B1 | B2 | C1 | C2

record CEFRWordGroups =
  basic :: "string list"
  independent :: "string list"
  proficient :: "string list"
  cefrDistribution :: "(cefr_band \<times> nat) list"

definition empty_groups :: CEFRWordGroups where
  "empty_groups = \<lparr>basic = [], independent = [], proficient = [], cefrDistribution = []\<rparr>"

text \<open>The distinct elements of a list, each at its first occurrence.\<close>

fun unique_first :: "string list \<Rightarrow> string list" where
  "unique_first [] = []"
| "unique_first (w # ws) = w # filter (\<lambda>v. v \<noteq> w) (unique_first ws)"

definition words_in_bands ::
  "(string \<Rightarrow> cefr_band option) \<Rightarrow> cefr_band list \<Rightarrow> string list \<Rightarrow> string list" where
  "words_in_bands lexicon bands ws =
     filter (\<lambda>w. case lexicon w of None \<Rightarrow> False | Some b \<Rightarrow> b \<in> set bands) ws"

text \<open>
  Modelled from the spec: the classifier \<open>classifyVocabulary(words, language)\<close> of
  section 4.2 and its lexicon are not among the sources (they belong to the analysis
  backend); the sources hold only the declaration of its result and the card of
  \<^verbatim>\<open>Analyzer.tsx\<close> that shows it. The lexicon is an argument. Following the specification,
  nothing is classified unless the language is English; otherwise each distinct
  lower-cased word, in the order of first occurrence, is looked up, an unknown word is
  left out, and the bands A, B and C fill the groups basic, independent and proficient.
\<close>

definition classifyVocabulary ::
  "(string \<Rightarrow> cefr_band option) \<Rightarrow> string list \<Rightarrow> string \<Rightarrow> CEFRWordGroups" where
  "classifyVocabulary lexicon ws lang =
     (if lang = ''English'' then
        (let us = unique_first (map toLowerCase ws)
         in \<lparr>basic = words_in_bands lexicon [A1, A2] us,
             independent = words_in_bands lexicon [B1, B2] us,
             proficient = words_in_bands lexicon [C1, C2] us,
             cefrDistribution =
               map (\<lambda>b. (b, length (words_in_bands lexicon [b] us))) [A1, A2, B1, B2, C1, C2]\<rparr>)
      else empty_groups)"

text \<open>
  The condition of line 2943 of \<^verbatim>\<open>Analyzer.tsx\<close> under which the card for the word groups is
  rendered: the diagnosis has word groups and the detected language of the grammar
  check, when there is one, is not \<^verbatim>\<open>'tl'\<close>.
\<close>

definition cefr_card_shown :: "CEFRWordGroups option \<Rightarrow> GrammarCheckResponse option \<Rightarrow> bool" where
  "cefr_card_shown groups grammarResult =
     (groups \<noteq> None \<and> map_option detected_language grammarResult \<noteq> Some ''tl'')"

section \<open>Concrete inputs\<close>

text \<open>
  A number that is not NaN and not negative: a finite value of at least \<open>0\<close>, or
  \<open>+\<infinity>\<close>.
\<close>

fun nonneg :: "number \<Rightarrow> bool" where
  "nonneg (Num r) = (0 \<le> r)"
| "nonneg PosInfinity = True"
| "nonneg _ = False"

text \<open>Issues as the grammar service reports them.\<close>

definition spelling_error :: GrammarIssue where
  "spelling_error =
     \<lparr>issue_type = ''spelling'', message = Some ''Possible spelling mistake found.'',
      offset = 0, issue_length = 3, replacements = [''The''], issue_context = ''Teh cat is'',
      severity = ''error'', rule_id = Some ''MORFOLOGIK_RULE_EN_US'',
      ai_explanation = None, ai_suggestion = None\<rparr>"

definition grammar_error :: GrammarIssue where
  "grammar_error =
     \<lparr>issue_type = ''grammar'', message = Some ''The verb form does not agree.'',
      offset = 2, issue_length = 8, replacements = [''runs''], issue_context = ''Teh cat is run'',
      severity = ''error'', rule_id = Some ''SUBJECT_VERB_AGREEMENT'',
      ai_explanation = None, ai_suggestion = None\<rparr>"

definition grammar_warning :: GrammarIssue where
  "grammar_warning =
     \<lparr>issue_type = ''grammar'', message = Some ''Use the past tense here.'',
      offset = 11, issue_length = 3, replacements = [''ran''], issue_context = ''is run fast'',
      severity = ''warning'', rule_id = Some ''VERB_TENSE'',
      ai_explanation = None, ai_suggestion = None\<rparr>"

definition capital_issue :: GrammarIssue where
  "capital_issue =
     \<lparr>issue_type = ''spelling'', message = Some ''Capitalize the first word.'',
      offset = 0, issue_length = 3, replacements = [''The''], issue_context = ''the cat'',
      severity = ''warning'', rule_id = Some ''UPPERCASE_SENTENCE_START'',
      ai_explanation = None, ai_suggestion = None\<rparr>"

text \<open>An issue whose type is the name of a member inherited from \<^verbatim>\<open>Object.prototype\<close>.\<close>

definition inherited_issue :: GrammarIssue where
  "inherited_issue =
     \<lparr>issue_type = ''constructor'', message = Some ''Possible typo.'',
      offset = 0, issue_length = 3, replacements = [], issue_context = ''Teh cat'',
      severity = ''error'', rule_id = None,
      ai_explanation = None, ai_suggestion = None\<rparr>"

definition response :: "string \<Rightarrow> GrammarIssue list \<Rightarrow> GrammarCheckResponse" where
  "response txt iss =
     \<lparr>response_text = txt, language = ''en'', detected_language = ''en'', issues = iss,
      issue_count = length iss, suggestions_count = 0, corrected_text = None,
      ai_overall_feedback = None\<rparr>"

definition ten_words :: string where
  "ten_words = ''Teh cat is run fast over the lazy dog today.''"

definition five_words :: string where
  "five_words = ''Teh cat is run fast.''"

text \<open>States of the analyzer and a lexicon.\<close>

definition short_text_state :: AnalyzerState where
  "short_text_state =
     \<lparr>inputText = ''  too little  '', currentText = [], selectedFile = None,
      isLoading = False, errorMessage = None, requests = []\<rparr>"

definition long_text_state :: AnalyzerState where
  "long_text_state =
     \<lparr>inputText = ''The cat sat on the mat.'', currentText = [], selectedFile = None,
      isLoading = False, errorMessage = None, requests = []\<rparr>"

definition image_state :: AnalyzerState where
  "image_state =
     \<lparr>inputText = [], currentText = [],
      selectedFile = Some \<lparr>base64 = ''iVBORw0KGgo='', mimeType = ''image/png'',
                             file_name = ''essay.png''\<rparr>,
      isLoading = False, errorMessage = None, requests = []\<rparr>"

definition sample_lexicon :: "string \<Rightarrow> cefr_band option" where
  "sample_lexicon =
     map_of [(''the'', A1), (''shift'', B1), (''ubiquitous'', C2), (''paradigm'', C1)]"

section \<open>The rounding is to a nearest value\<close>

text \<open>
  \<open>expo\<close> finds the binary exponent of a positive rational, \<open>round_half_even\<close> stays within
  one half of its argument, and so a finite result of \<open>fl\<close> lies within half a unit in the
  last place of the exact value.
\<close>

lemma pow2_pos: "0 < pow2 k"
  by (simp add: pow2_def)

lemma pow2_Suc: "pow2 (k + 1) = 2 * pow2 k"
proof (cases "0 \<le> k")
  case True
  then show ?thesis by (simp add: pow2_def nat_add_distrib)
next
  case False
  then have "nat (- k) = Suc (nat (- (k + 1)))" by simp
  with False show ?thesis by (auto simp: pow2_def)
qed

lemma expo_bounds_ge1:
  assumes "1 \<le> q"
  shows "pow2 (expo q) \<le> q \<and> q < pow2 (expo q + 1)"
proof -
  let ?n = "\<lfloor>q\<rfloor>"
  from assms have n: "0 < ?n" by simp
  from bitlen_bounds [OF n] have lo: "2 ^ nat (bitlen ?n - 1) \<le> ?n" and hi: "?n < 2 ^ nat (bitlen ?n)"
    by simp_all
  from n have b: "1 \<le> bitlen ?n" by (simp add: bitlen_alt_def)
  have e: "expo q = bitlen ?n - 1" using assms by (simp add: expo_def)
  from lo have "(of_int (2 ^ nat (bitlen ?n - 1)) :: rat) \<le> of_int ?n"
    by (simp only: of_int_le_iff)
  also have "\<dots> \<le> q" by simp
  finally have 1: "pow2 (expo q) \<le> q" using b by (simp add: e pow2_def)
  from hi have "?n + 1 \<le> 2 ^ nat (bitlen ?n)" by simp
  then have "(of_int (?n + 1) :: rat) \<le> of_int (2 ^ nat (bitlen ?n))"
    by (simp only: of_int_le_iff)
  moreover have "q < of_int (?n + 1)" by linarith
  ultimately have "q < of_int (2 ^ nat (bitlen ?n))" by linarith
  then have 2: "q < pow2 (expo q + 1)" using b by (simp add: e pow2_def)
  from 1 2 show ?thesis ..
qed


lemma expo_bounds_lt1:
  assumes "0 < q" and "q < 1"
  shows "pow2 (expo q) \<le> q \<and> q < pow2 (expo q + 1)"
proof -
  define x where "x = 1 / q"
  define k where "k = bitlen \<lfloor>x\<rfloor> - 1"
  from assms have x1: "1 < x" by (simp add: x_def)
  then have "1 \<le> x" by simp
  from expo_bounds_ge1 [OF this] have lo: "pow2 k \<le> x" and hi: "x < pow2 (k + 1)"
    using \<open>1 \<le> x\<close> by (simp_all add: expo_def k_def)
  from x1 have "0 < \<lfloor>x\<rfloor>" by simp
  then have k0: "0 \<le> k" by (simp add: k_def bitlen_alt_def)
  have q: "q = 1 / x" using assms by (simp add: x_def)
  have xpos: "0 < x" using x1 by simp
  show ?thesis
  proof (cases "x = pow2 k")
    case True
    then have e: "expo q = - k"
      using assms by (simp add: expo_def x_def k_def Let_def)
    from True x1 have "k \<noteq> 0" by (auto simp: pow2_def)
    have a: "pow2 (- k) = 1 / pow2 k" using k0 by (auto simp: pow2_def)
    from True q have qk: "q = 1 / pow2 k" by simp
    have s: "pow2 (- k + 1) = 2 * pow2 (- k)" by (rule pow2_Suc)
    from a qk have pq: "pow2 (- k) = q" by simp
    have 1: "pow2 (expo q) \<le> q"
      unfolding e pq by simp
    have 2: "q < pow2 (expo q + 1)"
      unfolding e s pq using assms(1) by simp
    from 1 2 show ?thesis ..
  next
    case False
    then have e: "expo q = - k - 1"
      using assms by (simp add: expo_def x_def k_def Let_def)
    from False lo have lo': "pow2 k < x" by simp
    have a: "pow2 (- k) = 1 / pow2 k" using k0 by (auto simp: pow2_def)
    have b: "pow2 (- k - 1) = 1 / pow2 (k + 1)" using k0 by (auto simp: pow2_def nat_add_distrib)
    have c: "- k - 1 + 1 = - k" by simp
    from hi xpos pow2_pos [of "k + 1"] have 1: "1 / pow2 (k + 1) \<le> 1 / x"
      by (simp add: frac_le)
    from lo' xpos pow2_pos [of k] have 2: "1 / x < 1 / pow2 k"
      by (simp add: frac_less2)
    from 1 have 3: "pow2 (expo q) \<le> q"
      unfolding e b by (simp only: q)
    from 2 have 4: "q < pow2 (expo q + 1)"
      unfolding e c a by (simp only: q)
    from 3 4 show ?thesis ..
  qed
qed

lemma expo_bounds: "0 < q \<Longrightarrow> pow2 (expo q) \<le> q \<and> q < pow2 (expo q + 1)"
  using expo_bounds_ge1 [of q] expo_bounds_lt1 [of q] by (cases "1 \<le> q") simp_all

lemma round_half_even_error: "\<bar>of_int (round_half_even x) - x\<bar> \<le> 1 / 2"
proof -
  define f where "f = \<lfloor>x\<rfloor>"
  define d where "d = x - of_int f"
  have d: "0 \<le> d" "d < 1" unfolding d_def f_def by linarith+
  have r: "round_half_even x = (if d < 1 / 2 then f else if 1 / 2 < d then f + 1
      else if even f then f else f + 1)"
    by (simp add: round_half_even_def Let_def f_def d_def)
  have "\<bar>of_int (round_half_even x) - (of_int f + d)\<bar> \<le> 1 / 2"
    unfolding r using d by (auto simp: abs_if)
  then show ?thesis by (simp add: d_def)
qed

lemma fl_error:
  assumes "fl q = Num r"
  shows "\<bar>r - q\<bar> \<le> pow2 (max (expo \<bar>q\<bar> - 52) (- 1074)) / 2"
proof (cases "q = 0")
  case True
  with assms show ?thesis by (simp add: fl_def pow2_pos less_imp_le)
next
  case False
  define p where "p = max (expo \<bar>q\<bar> - 52) (- 1074)"
  define m where "m = round_half_even (\<bar>q\<bar> / pow2 p)"
  from assms False have r: "r = (if 0 < q then of_int m * pow2 p else - (of_int m * pow2 p))"
    by (auto simp: fl_def Let_def p_def m_def split: if_splits)
  have "\<bar>of_int m - \<bar>q\<bar> / pow2 p\<bar> \<le> 1 / 2"
    unfolding m_def by (rule round_half_even_error)
  then have "\<bar>of_int m - \<bar>q\<bar> / pow2 p\<bar> * pow2 p \<le> 1 / 2 * pow2 p"
    using pow2_pos [of p] by (simp add: mult_right_mono less_imp_le)
  moreover have "\<bar>of_int m - \<bar>q\<bar> / pow2 p\<bar> * pow2 p = \<bar>(of_int m - \<bar>q\<bar> / pow2 p) * pow2 p\<bar>"
    using pow2_pos [of p] by (simp add: abs_mult)
  moreover have "(of_int m - \<bar>q\<bar> / pow2 p) * pow2 p = of_int m * pow2 p - \<bar>q\<bar>"
    using pow2_pos [of p] by (simp add: left_diff_distrib)
  ultimately have "\<bar>of_int m * pow2 p - \<bar>q\<bar>\<bar> \<le> pow2 p / 2" by simp
  with r False show ?thesis
    unfolding p_def [symmetric] by (auto simp: abs_if split: if_splits)
qed

text \<open>Rounding yields no NaN and keeps the sign.\<close>

lemma fl_not_NaN: "fl q \<noteq> NaN"
  by (simp add: fl_def Let_def)

lemma round_half_even_nonneg: "0 \<le> x \<Longrightarrow> 0 \<le> round_half_even x"
  by (auto simp: round_half_even_def Let_def)

lemma nonneg_fl: "0 \<le> q \<Longrightarrow> nonneg (fl q)"
  by (auto simp: fl_def Let_def round_half_even_nonneg pow2_pos less_imp_le)

lemma nonneg_jsadd: "nonneg x \<Longrightarrow> nonneg y \<Longrightarrow> nonneg (jsadd x y)"
  by (cases x; cases y) (simp_all add: nonneg_fl)

lemma nonneg_jsmul_finite:
  "nonneg x \<Longrightarrow> nonneg y \<Longrightarrow> x \<noteq> PosInfinity \<Longrightarrow> y \<noteq> PosInfinity \<Longrightarrow> nonneg (jsmul x y)"
  by (cases x; cases y) (simp_all add: nonneg_fl)

lemma nonneg_jsmul_pos: "nonneg x \<Longrightarrow> 0 < b \<Longrightarrow> nonneg (jsmul x (Num b))"
  by (cases x) (simp_all add: nonneg_fl infinity_of_sign_def)

lemma nonneg_jsdiv_pos: "nonneg x \<Longrightarrow> 0 < b \<Longrightarrow> nonneg (jsdiv x (Num b))"
  by (cases x) (simp_all add: nonneg_fl infinity_of_sign_def)

lemma jssub_nonneg_not_NaN: "nonneg x \<Longrightarrow> jssub (Num a) x \<noteq> NaN"
  by (cases x) (simp_all add: jssub_def fl_not_NaN)

lemma clamp_in_range: "x \<noteq> NaN \<Longrightarrow> in_0_100 (Math_max (Num 0) (Math_min (Num 100) x))"
  by (cases x) (auto simp: Math_max_def Math_min_def)

section \<open>Values of the literals\<close>

lemma fl_0: "fl 0 = Num 0"
  by (simp add: fl_def)

lemma lit_0: "lit 0 = Num 0"
  by (simp add: lit_def fl_0)

lemma lit_1: "lit 1 = Num 1"
  unfolding lit_def by code_simp

lemma lit_2: "lit 2 = Num 2"
  unfolding lit_def by code_simp

lemma lit_100: "lit 100 = Num 100"
  unfolding lit_def by code_simp

lemma lit_3_2: "lit (3 / 2) = Num (3 / 2)"
  unfolding lit_def by code_simp

lemma lit_1_2: "lit (1 / 2) = Num (1 / 2)"
  unfolding lit_def by code_simp

text \<open>The literals \<^verbatim>\<open>0.4\<close>, \<^verbatim>\<open>0.6\<close>, \<^verbatim>\<open>0.8\<close> and \<^verbatim>\<open>1.2\<close> are not binary fractions.\<close>

lemma lit_2_5: "lit (2 / 5) = Num (3602879701896397 / 9007199254740992)"
  unfolding lit_def by code_simp

lemma lit_3_5: "lit (3 / 5) = Num (5404319552844595 / 9007199254740992)"
  unfolding lit_def by code_simp

lemma lit_4_5: "lit (4 / 5) = Num (3602879701896397 / 4503599627370496)"
  unfolding lit_def by code_simp

lemma lit_6_5: "lit (6 / 5) = Num (5404319552844595 / 4503599627370496)"
  unfolding lit_def by code_simp

lemmas lit_values =
  lit_0 lit_1 lit_2 lit_100 lit_3_2 lit_1_2 lit_2_5 lit_3_5 lit_4_5 lit_6_5

lemma fl_100: "fl 100 = Num 100"
  using lit_100 by (simp add: lit_def)

section \<open>The score of an empty issue list and of an empty text\<close>

lemma grammarScore_Nil: "grammarScore [] n = Num 100"
  by (simp add: grammarScore_def errorRate_def weightedErrors_def lit_values fl_0 fl_100
      jssub_def Math_min_def Math_max_def)

text \<open>
  Claim C4. For every word count \<open>n\<close> greater than \<open>0\<close>, scoring the empty issue list
  yields a grammar score of exactly \<open>100\<close>.
\<close>

theorem empty_issue_list_scores_100:
  "0 < n \<Longrightarrow> grammarScore [] n = Num 100"
  by (rule grammarScore_Nil)

theorem empty_issue_list_scores_100_witness:
  "(0::nat) < 7 \<and> grammarScore [] 7 = Num 100"
  using empty_issue_list_scores_100 [of 7] by simp

text \<open>
  Claim C6. When the word count of the checked text is \<open>0\<close>, the grammar score is \<open>100\<close>
  for every issue list, and no division by zero is performed: the error rate is the
  literal \<open>0\<close> chosen by the guard \<^verbatim>\<open>totalWords > 0\<close>, whatever the weighted errors are.
\<close>

theorem zero_words_scores_100:
  "errorRate iss 0 = Num 0 \<and> grammarScore iss 0 = Num 100"
  by (simp add: grammarScore_def errorRate_def lit_values fl_100 jssub_def
      Math_min_def Math_max_def)

section \<open>The two copies of the score card\<close>

lemma isCapitalizationIssue2_eq: "isCapitalizationIssue2 i = isCapitalizationIssue i"
  by (simp add: isCapitalizationIssue2_def isCapitalizationIssue_def)

lemma typeWeight2_eq: "typeWeight2 i = typeWeight i"
  by (simp add: typeWeight2_def typeWeight_def isCapitalizationIssue2_eq
      typeWeights2_def typeWeights_def)

lemma issueWeight2_eq: "issueWeight2 i = issueWeight i"
  by (simp add: issueWeight2_def issueWeight_def typeWeight2_eq severityMultiplier_def)

lemma weightedErrors2_eq: "weightedErrors2 iss = weightedErrors iss"
  by (simp add: weightedErrors2_def weightedErrors_def issueWeight2_eq)

lemma grammarScore2_eq: "grammarScore2 iss n = grammarScore iss n"
  by (simp add: grammarScore2_def grammarScore_def errorRate_def weightedErrors2_eq)

text \<open>
  Claim C10. The two definitions of \<^verbatim>\<open>GrammarScoreCard\<close> in \<^verbatim>\<open>Analyzer.tsx\<close> compute equal
  grammar scores for every input, \<^verbatim>\<open>null\<close> included.
\<close>

theorem score_card_copies_agree:
  "GrammarScoreCard2 g = GrammarScoreCard g"
  by (cases g) (simp_all add: grammarScore2_eq totalWords2_def totalWords_def)

section \<open>The type weight of an issue\<close>

lemma isCapitalizationIssue_type_irrelevant:
  "isCapitalizationIssue (issue\<lparr>issue_type := t\<rparr>) = isCapitalizationIssue issue"
  by (simp add: isCapitalizationIssue_def)

lemma map_of_typeWeights_cases:
  "map_of typeWeights t = Some w \<Longrightarrow>
     w \<in> {lit 2, lit (3 / 2), lit (4 / 5), lit (3 / 5), lit (2 / 5)}"
  by (auto simp: typeWeights_def split: if_splits)

lemma table_truthy: "map_of typeWeights t = Some w \<Longrightarrow> truthy (NumberVal w)"
  by (drule map_of_typeWeights_cases) (auto simp: lit_values)

lemma table_nonneg: "map_of typeWeights t = Some w \<Longrightarrow> nonneg w \<and> w \<noteq> PosInfinity"
  by (drule map_of_typeWeights_cases) (auto simp: lit_values)

lemma typeWeight_flagged:
  "isCapitalizationIssue issue \<Longrightarrow> typeWeight issue = NumberVal (lit (2 / 5))"
  by (simp add: typeWeight_def)

lemma typeWeight_table:
  "\<not> isCapitalizationIssue issue \<Longrightarrow> map_of typeWeights (issue_type issue) = Some w \<Longrightarrow>
     typeWeight issue = NumberVal w"
  using table_truthy [of "issue_type issue" w]
  by (simp add: typeWeight_def get_property_def or_else_def)

lemma capital_issue_flagged: "isCapitalizationIssue capital_issue"
  unfolding capital_issue_def by code_simp

lemma spelling_error_not_capital: "\<not> isCapitalizationIssue spelling_error"
  unfolding spelling_error_def by code_simp

lemma grammar_error_not_capital: "\<not> isCapitalizationIssue grammar_error"
  unfolding grammar_error_def by code_simp

lemma grammar_warning_not_capital: "\<not> isCapitalizationIssue grammar_warning"
  unfolding grammar_warning_def by code_simp

lemma inherited_not_capital: "\<not> isCapitalizationIssue inherited_issue"
  unfolding inherited_issue_def by code_simp

text \<open>
  Claim C2. For every issue whose message or rule identifier indicates a capitalization
  problem, the scorer uses the capitalization type weight \<open>0.4\<close> before it applies the
  severity multiplier, whatever the nominal type of the issue is; an issue not so
  flagged uses the weight that the table gives its nominal type.
\<close>

theorem capitalization_override:
  "(isCapitalizationIssue issue \<longrightarrow>
      (\<forall>t. typeWeight (issue\<lparr>issue_type := t\<rparr>) = NumberVal (lit (2 / 5))) \<and>
      issueWeight issue = jsmul (lit (2 / 5)) (severityMultiplier (severity issue))) \<and>
   (\<not> isCapitalizationIssue issue \<longrightarrow>
      (\<forall>w. map_of typeWeights (issue_type issue) = Some w \<longrightarrow>
         typeWeight issue = NumberVal w \<and>
         issueWeight issue = jsmul w (severityMultiplier (severity issue))))"
  by (auto simp: typeWeight_flagged isCapitalizationIssue_type_irrelevant typeWeight_table
      issueWeight_def)

theorem capitalization_override_witness:
  "isCapitalizationIssue capital_issue \<and>
   issue_type capital_issue = ''spelling'' \<and>
   typeWeight capital_issue = NumberVal (lit (2 / 5)) \<and>
   typeWeight (capital_issue\<lparr>issue_type := ''grammar''\<rparr>) = NumberVal (lit (2 / 5)) \<and>
   issueWeight capital_issue = jsmul (lit (2 / 5)) (lit (4 / 5)) \<and>
   \<not> isCapitalizationIssue grammar_error \<and>
   map_of typeWeights (issue_type grammar_error) = Some (lit (3 / 2)) \<and>
   typeWeight grammar_error = NumberVal (lit (3 / 2)) \<and>
   issueWeight grammar_error = jsmul (lit (3 / 2)) (lit (6 / 5))"
proof -
  have t: "map_of typeWeights (issue_type grammar_error) = Some (lit (3 / 2))"
    by (simp add: typeWeights_def grammar_error_def)
  have s1: "severity capital_issue = ''warning''" "issue_type capital_issue = ''spelling''"
    by (simp_all add: capital_issue_def)
  have s2: "severity grammar_error = ''error''"
    by (simp add: grammar_error_def)
  from capitalization_override [of capital_issue] capital_issue_flagged
  have a: "\<forall>t. typeWeight (capital_issue\<lparr>issue_type := t\<rparr>) = NumberVal (lit (2 / 5))"
    and b: "issueWeight capital_issue =
        jsmul (lit (2 / 5)) (severityMultiplier (severity capital_issue))"
    by blast+
  from capitalization_override [of grammar_error] grammar_error_not_capital t
  have c: "typeWeight grammar_error = NumberVal (lit (3 / 2))"
    and d: "issueWeight grammar_error =
        jsmul (lit (3 / 2)) (severityMultiplier (severity grammar_error))"
    by blast+
  from a have a1: "typeWeight (capital_issue\<lparr>issue_type := ''grammar''\<rparr>) = NumberVal (lit (2 / 5))"
    by blast
  from a have "typeWeight (capital_issue\<lparr>issue_type := issue_type capital_issue\<rparr>) =
      NumberVal (lit (2 / 5))"
    by blast
  then have a2: "typeWeight capital_issue = NumberVal (lit (2 / 5))"
    by simp
  show ?thesis
    using capital_issue_flagged grammar_error_not_capital t a1 a2 b c d
    by (simp add: s1 s2 severityMultiplier_def)
qed

text \<open>
  A type outside the table gets the default \<open>1.0\<close> unless it names a member inherited
  from \<^verbatim>\<open>Object.prototype\<close>: then \<^verbatim>\<open>typeWeights[issue.type]\<close> is that member, which is
  truthy, the default is not taken, and the product with the multiplier is NaN.
\<close>

lemma typeWeight_ObjectVal_iff:
  "typeWeight issue = ObjectVal \<longleftrightarrow>
     \<not> isCapitalizationIssue issue \<and> issue_type issue \<in> set Object_prototype"
proof (cases "map_of typeWeights (issue_type issue)")
  case None
  then show ?thesis
    by (simp add: typeWeight_def get_property_def or_else_def)
next
  case (Some w)
  then have "issue_type issue \<notin> set Object_prototype"
    by (auto simp: typeWeights_def Object_prototype_def split: if_splits)
  with Some table_truthy [OF Some] show ?thesis
    by (simp add: typeWeight_def get_property_def or_else_def)
qed

lemma default_weight:
  "\<not> isCapitalizationIssue issue \<Longrightarrow> map_of typeWeights (issue_type issue) = None \<Longrightarrow>
   issue_type issue \<notin> set Object_prototype \<Longrightarrow> typeWeight issue = NumberVal (lit 1)"
  by (simp add: typeWeight_def get_property_def or_else_def)

lemma inherited_weight:
  assumes "\<not> isCapitalizationIssue issue" and "issue_type issue \<in> set Object_prototype"
  shows "typeWeight issue = ObjectVal \<and> issueWeight issue = NaN"
proof -
  from assms have "typeWeight issue = ObjectVal"
    by (simp add: typeWeight_ObjectVal_iff)
  then show ?thesis by (simp add: issueWeight_def)
qed

text \<open>
  Claim C9. An issue whose type is none of the five of the table and which is not
  detected as a capitalization issue should get the default type weight \<open>1.0\<close>. The
  scorer does not give it to the issue of type \<^verbatim>\<open>constructor\<close>: its type weight is the
  inherited member, not \<open>1.0\<close>, and its weight is NaN.
\<close>

theorem inherited_type_name_has_no_default_weight:
  "issue_type inherited_issue \<notin>
     {''spelling'', ''grammar'', ''punctuation'', ''style'', ''capitalization''} \<and>
   \<not> isCapitalizationIssue inherited_issue \<and>
   typeWeight inherited_issue = ObjectVal \<and>
   typeWeight inherited_issue \<noteq> NumberVal (lit 1) \<and>
   issueWeight inherited_issue = NaN"
proof -
  have "issue_type inherited_issue \<in> set Object_prototype"
    by (simp add: inherited_issue_def Object_prototype_def)
  with inherited_not_capital inherited_weight [of inherited_issue] show ?thesis
    by (simp add: inherited_issue_def)
qed

section \<open>The range of the score\<close>

lemma typeWeight_cases:
  "typeWeight issue = ObjectVal \<or>
   (\<exists>w. typeWeight issue = NumberVal w \<and> nonneg w \<and> w \<noteq> PosInfinity)"
proof (cases "isCapitalizationIssue issue")
  case True
  then show ?thesis by (simp add: typeWeight_def lit_values)
next
  case False
  show ?thesis
  proof (cases "map_of typeWeights (issue_type issue)")
    case None
    with False show ?thesis
      by (simp add: typeWeight_def get_property_def or_else_def lit_values)
  next
    case (Some w)
    from table_truthy [OF Some] table_nonneg [OF Some] False Some show ?thesis
      by (auto simp: typeWeight_def get_property_def or_else_def)
  qed
qed

lemma severityMultiplier_nonneg:
  "nonneg (severityMultiplier v) \<and> severityMultiplier v \<noteq> PosInfinity"
  by (simp add: severityMultiplier_def lit_values)

lemma issueWeight_nonneg: "typeWeight issue \<noteq> ObjectVal \<Longrightarrow> nonneg (issueWeight issue)"
  using typeWeight_cases [of issue] severityMultiplier_nonneg [of "severity issue"]
  by (auto simp: issueWeight_def nonneg_jsmul_finite)

lemma foldl_nonneg:
  "nonneg acc \<Longrightarrow> \<forall>i\<in>set iss. typeWeight i \<noteq> ObjectVal \<Longrightarrow>
   nonneg (foldl (\<lambda>sum issue. jsadd sum (issueWeight issue)) acc iss)"
  by (induction iss arbitrary: acc) (simp_all add: nonneg_jsadd issueWeight_nonneg)

lemma weightedErrors_nonneg:
  "\<forall>i\<in>set iss. typeWeight i \<noteq> ObjectVal \<Longrightarrow> nonneg (weightedErrors iss)"
  by (simp add: weightedErrors_def foldl_nonneg lit_values)

lemma errorRate_nonneg:
  "\<forall>i\<in>set iss. typeWeight i \<noteq> ObjectVal \<Longrightarrow> nonneg (errorRate iss n)"
  by (simp add: errorRate_def lit_values weightedErrors_nonneg nonneg_jsmul_pos nonneg_jsdiv_pos)

text \<open>
  Where no issue type names an inherited member, the score is a number between \<open>0\<close> and
  \<open>100\<close>, for every issue list and every word count.
\<close>

lemma grammarScore_in_range:
  assumes "\<forall>i\<in>set iss. isCapitalizationIssue i \<or> issue_type i \<notin> set Object_prototype"
  shows "in_0_100 (grammarScore iss n)"
proof -
  from assms have "\<forall>i\<in>set iss. typeWeight i \<noteq> ObjectVal"
    by (auto simp: typeWeight_ObjectVal_iff)
  then have "nonneg (errorRate iss n)" by (rule errorRate_nonneg)
  then have "jssub (Num 100) (errorRate iss n) \<noteq> NaN" by (rule jssub_nonneg_not_NaN)
  then show ?thesis by (simp add: grammarScore_def lit_values clamp_in_range)
qed

lemma five_words_count: "totalWords five_words = 5"
  unfolding five_words_def by code_simp

text \<open>
  Claim C3. The grammar score should lie between \<open>0\<close> and \<open>100\<close> for every issue list and
  word count. For the five-word text with the one issue of type \<^verbatim>\<open>constructor\<close> the card
  computes NaN, which \<^verbatim>\<open>Math.min\<close> and \<^verbatim>\<open>Math.max\<close> pass on.
\<close>

theorem inherited_type_name_gives_NaN_score:
  "GrammarScoreCard (Some (response five_words [inherited_issue])) = Some NaN \<and>
   \<not> in_0_100 (grammarScore [inherited_issue] (totalWords five_words))"
proof -
  have "issue_type inherited_issue \<in> set Object_prototype"
    by (simp add: inherited_issue_def Object_prototype_def)
  with inherited_not_capital have w: "issueWeight inherited_issue = NaN"
    by (simp add: inherited_weight)
  have "grammarScore [inherited_issue] 5 = NaN"
    by (simp add: grammarScore_def errorRate_def weightedErrors_def w lit_values jssub_def
        Math_min_def Math_max_def)
  then show ?thesis by (simp add: response_def five_words_count)
qed

section \<open>The score and the formula of the specification\<close>

text \<open>The word count of the card is the number of words of the text.\<close>

lemma count_words_dropWhile:
  "count_words False (dropWhile is_space s) = count_words False s"
  by (induction s) simp_all

lemma split_from_count:
  "length (filter (\<lambda>w. 0 < length w) (split_from cur s)) =
     (if cur = [] then 0 else 1) + count_words (cur \<noteq> []) s"
  by (induction cur s rule: split_from.induct) (simp_all add: count_words_dropWhile)

lemma totalWords_eq_spec_wordCount: "totalWords s = spec_wordCount s"
  using split_from_count [of "[]" s]
  by (simp add: totalWords_def spec_wordCount_def split_whitespace_def)

text \<open>Where the tables of the specification give a weight, the card uses it.\<close>

lemma spec_typeWeight_table:
  "spec_typeWeight t = Some w \<Longrightarrow> map_of typeWeights t = Some w"
  by (auto simp: spec_typeWeight_def typeWeights_def split: if_splits)

lemma spec_severityMultiplier_eq:
  "spec_severityMultiplier v = Some m \<Longrightarrow> severityMultiplier v = m"
  by (auto simp: spec_severityMultiplier_def severityMultiplier_def split: if_splits)

lemma spec_weight_eq:
  assumes "spec_weight issue = Some w"
  shows "issueWeight issue = w"
proof -
  from assms obtain tw m where
    tw: "spec_typeWeight (spec_effectiveType issue) = Some tw" and
    m: "spec_severityMultiplier (severity issue) = Some m" and
    w: "w = jsmul tw m"
    by (auto simp: spec_weight_def split: option.splits)
  have "typeWeight issue = NumberVal tw"
  proof (cases "isCapitalizationIssue issue")
    case True
    with tw have "tw = lit (2 / 5)"
      by (simp add: spec_effectiveType_def spec_typeWeight_def)
    with True show ?thesis by (simp add: typeWeight_flagged)
  next
    case False
    with tw have "map_of typeWeights (issue_type issue) = Some tw"
      by (simp add: spec_effectiveType_def spec_typeWeight_table)
    with False show ?thesis by (rule typeWeight_table)
  qed
  with m w show ?thesis
    by (simp add: issueWeight_def spec_severityMultiplier_eq)
qed

lemma spec_weights_eq:
  "spec_weights iss = Some ws \<Longrightarrow> ws = map issueWeight iss"
  by (induction iss arbitrary: ws) (auto simp: spec_weight_eq split: option.splits)

lemma weightedErrors_spec_sum: "weightedErrors iss = spec_sum (map issueWeight iss)"
  by (simp add: weightedErrors_def spec_sum_def foldl_map)

lemma grammarScore_spec:
  assumes "0 < n" and "spec_GrammarScore iss n = Some s"
  shows "grammarScore iss n = s"
proof -
  from assms(2) obtain ws where ws: "spec_weights iss = Some ws"
    and s: "s = spec_clamp
          (jssub (lit 100) (jsmul (jsdiv (spec_sum ws) (Num (of_nat n))) (lit 100)))
          (lit 0) (lit 100)"
    by (auto simp: spec_GrammarScore_def)
  from ws have "ws = map issueWeight iss" by (rule spec_weights_eq)
  with s assms(1) show ?thesis
    by (simp add: grammarScore_def errorRate_def weightedErrors_spec_sum spec_clamp_def)
qed

text \<open>The products, sums and quotients that the examples need, each rounded once.\<close>

lemma mul_2_by_1_2:
  "jsmul (Num 2) (Num (5404319552844595 / 4503599627370496)) =
     Num (5404319552844595 / 2251799813685248)"
  by code_simp

lemma mul_1_5_by_0_8:
  "jsmul (Num (3 / 2)) (Num (3602879701896397 / 4503599627370496)) =
     Num (1351079888211149 / 1125899906842624)"
  by code_simp

lemma mul_1_5_by_1_2:
  "jsmul (Num (3 / 2)) (Num (5404319552844595 / 4503599627370496)) =
     Num (2026619832316723 / 1125899906842624)"
  by code_simp

lemma add_0_spelling:
  "jsadd (Num 0) (Num (5404319552844595 / 2251799813685248)) =
     Num (5404319552844595 / 2251799813685248)"
  by code_simp

lemma add_0_grammar:
  "jsadd (Num 0) (Num (2026619832316723 / 1125899906842624)) =
     Num (2026619832316723 / 1125899906842624)"
  by code_simp

lemma add_spelling_grammar_error:
  "jsadd (Num (5404319552844595 / 2251799813685248)) (Num (2026619832316723 / 1125899906842624)) =
     Num (1182194902184755 / 281474976710656)"
  by code_simp

lemma add_grammar_spelling_error:
  "jsadd (Num (2026619832316723 / 1125899906842624)) (Num (5404319552844595 / 2251799813685248)) =
     Num (1182194902184755 / 281474976710656)"
  by code_simp

lemma div_by_10:
  "jsdiv (Num (1182194902184755 / 281474976710656)) (Num 10) =
     Num (236438980436951 / 562949953421312)"
  by code_simp

lemma times_100:
  "jsmul (Num (236438980436951 / 562949953421312)) (Num 100) =
     Num (5910974510923775 / 140737488355328)"
  by code_simp

lemma sub_from_100:
  "jssub (Num 100) (Num (5910974510923775 / 140737488355328)) =
     Num (8162774324609025 / 140737488355328)"
  by code_simp

lemma clamp_58:
  "Math_max (Num 0) (Math_min (Num 100) (Num (8162774324609025 / 140737488355328))) =
     Num (8162774324609025 / 140737488355328)"
  by code_simp

lemma round_58: "Math_round (Num (8162774324609025 / 140737488355328)) = Num 58"
  by code_simp

lemma of_nat_10: "Num (of_nat 10) = Num 10"
  by simp

lemma add_spelling_grammar_warning:
  "jsadd (Num (5404319552844595 / 2251799813685248)) (Num (1351079888211149 / 1125899906842624)) =
     Num (8106479329266893 / 2251799813685248)"
  by code_simp

lemma div_by_5:
  "jsdiv (Num (8106479329266893 / 2251799813685248)) (Num 5) =
     Num (3242591731706757 / 4503599627370496)"
  by code_simp

lemma times_100_is_72:
  "jsmul (Num (3242591731706757 / 4503599627370496)) (Num 100) = Num 72"
  by code_simp

lemma sub_72: "jssub (Num 100) (Num 72) = Num 28"
  by code_simp

lemma clamp_28: "Math_max (Num 0) (Math_min (Num 100) (Num 28)) = Num 28"
  by code_simp

lemmas two_error_facts =
  lit_values mul_2_by_1_2 mul_1_5_by_1_2 add_0_spelling add_0_grammar
  add_spelling_grammar_error add_grammar_spelling_error div_by_10 times_100 sub_from_100
  clamp_58 round_58 of_nat_10

lemma five_words_spec_count: "spec_wordCount five_words = 5"
  unfolding five_words_def by code_simp

lemma spec_weight_spelling_error:
  "spec_weight spelling_error = Some (Num (5404319552844595 / 2251799813685248))"
proof -
  have "spec_weight spelling_error = Some (jsmul (lit 2) (lit (6 / 5)))"
    using spelling_error_not_capital
    by (simp add: spec_weight_def spec_effectiveType_def)
       (simp add: spelling_error_def spec_typeWeight_def spec_severityMultiplier_def)
  then show ?thesis by (simp only: lit_values mul_2_by_1_2)
qed

lemma spec_weight_grammar_warning:
  "spec_weight grammar_warning = Some (Num (1351079888211149 / 1125899906842624))"
proof -
  have "spec_weight grammar_warning = Some (jsmul (lit (3 / 2)) (lit (4 / 5)))"
    using grammar_warning_not_capital
    by (simp add: spec_weight_def spec_effectiveType_def)
       (simp add: grammar_warning_def spec_typeWeight_def spec_severityMultiplier_def)
  then show ?thesis by (simp only: lit_values mul_1_5_by_0_8)
qed

lemma scenario_spec_score:
  "spec_GrammarScore [spelling_error, grammar_warning] 5 = Some (Num 28)"
proof -
  have n: "Num (of_nat 5) = Num 5" by simp
  have "spec_GrammarScore [spelling_error, grammar_warning] 5 =
    Some (Math_max (lit 0) (Math_min (lit 100) (jssub (lit 100)
      (jsmul (jsdiv (jsadd (jsadd (lit 0) (Num (5404319552844595 / 2251799813685248)))
                       (Num (1351079888211149 / 1125899906842624)))
                (Num (of_nat 5))) (lit 100)))))"
    by (simp add: spec_GrammarScore_def spec_weight_spelling_error spec_weight_grammar_warning
        spec_sum_def spec_clamp_def)
  then show ?thesis
    by (simp only: lit_values n add_0_spelling add_spelling_grammar_warning div_by_5
        times_100_is_72 sub_72 clamp_28)
qed

lemma empty_text_spec_score: "spec_GrammarScore [spelling_error] 0 = Some (Num 0)"
proof -
  have "spec_GrammarScore [spelling_error] 0 =
    Some (Math_max (lit 0) (Math_min (lit 100) (jssub (lit 100)
      (jsmul (jsdiv (jsadd (lit 0) (Num (5404319552844595 / 2251799813685248))) (Num 0))
         (lit 100)))))"
    by (simp add: spec_GrammarScore_def spec_weight_spelling_error spec_sum_def spec_clamp_def)
  also have "\<dots> = Some (Math_max (Num 0) (Math_min (Num 100) (jssub (Num 100)
      (jsmul (jsdiv (Num (5404319552844595 / 2251799813685248)) (Num 0)) (Num 100)))))"
    by (simp only: lit_values add_0_spelling)
  also have "\<dots> = Some (Num 0)"
    by (simp add: infinity_of_sign_def jssub_def Math_min_def Math_max_def)
  finally show ?thesis .
qed

text \<open>
  Claim C1, as stated, fails for a text without words: there the quotient of the formula
  is a division by zero, which for the one spelling error gives \<open>+\<infinity>\<close> and a clamped value
  of \<open>0\<close>, while the card shows \<open>100\<close>.
\<close>

theorem formula_differs_on_empty_text:
  "spec_wordCount (response_text (response [] [spelling_error])) = 0 \<and>
   GrammarScoreCard (Some (response [] [spelling_error])) = Some (Num 100) \<and>
   spec_GrammarScore (issues (response [] [spelling_error]))
     (spec_wordCount (response_text (response [] [spelling_error]))) = Some (Num 0)"
proof -
  have n: "spec_wordCount [] = 0" by (simp add: spec_wordCount_def)
  have t: "totalWords [] = 0" by (simp add: totalWords_eq_spec_wordCount n)
  have "grammarScore [spelling_error] 0 = Num 100"
    by (simp add: grammarScore_def errorRate_def lit_values fl_100 jssub_def
      Math_min_def Math_max_def)
  with n t show ?thesis by (simp add: response_def empty_text_spec_score)
qed

text \<open>
  Claim C1, amended. For every grammar check result whose text has at least one word and
  whose issues all have a weight under the tables of the specification (a type among
  spelling \<open>2.0\<close>, grammar \<open>1.5\<close>, punctuation \<open>0.8\<close>, style \<open>0.6\<close> and capitalization \<open>0.4\<close>, an
  issue that indicates a capitalization problem counting as capitalization, and a severity
  among error \<open>1.2\<close>, warning \<open>0.8\<close> and info \<open>0.5\<close>), the score of the card equals
  \<open>clamp(100 - (\<Sum> weight / wordCount) \<times> 100, 0, 100)\<close>, computed in the arithmetic of the
  program, where \<open>wordCount\<close> is the number of words of the text.
\<close>

theorem score_follows_formula_on_nonempty_text:
  assumes "0 < spec_wordCount (response_text r)"
    and "spec_GrammarScore (issues r) (spec_wordCount (response_text r)) = Some s"
  shows "GrammarScoreCard (Some r) = Some s"
  using assms by (simp add: totalWords_eq_spec_wordCount grammarScore_spec)

theorem score_follows_formula_on_nonempty_text_witness:
  "0 < spec_wordCount (response_text (response five_words [spelling_error, grammar_warning])) \<and>
   spec_GrammarScore (issues (response five_words [spelling_error, grammar_warning]))
     (spec_wordCount (response_text (response five_words [spelling_error, grammar_warning])))
     = Some (Num 28) \<and>
   GrammarScoreCard (Some (response five_words [spelling_error, grammar_warning])) = Some (Num 28)"
proof -
  let ?r = "response five_words [spelling_error, grammar_warning]"
  have n: "spec_wordCount (response_text ?r) = 5"
    by (simp add: response_def five_words_spec_count)
  have s: "spec_GrammarScore (issues ?r) (spec_wordCount (response_text ?r)) = Some (Num 28)"
    by (simp add: n) (simp add: response_def scenario_spec_score)
  from n have p: "0 < spec_wordCount (response_text ?r)" by simp
  from score_follows_formula_on_nonempty_text [OF p s] p s show ?thesis by simp
qed

section \<open>Two overlapping errors on ten words\<close>

lemma error_weight:
  assumes "\<not> isCapitalizationIssue i" and "map_of typeWeights (issue_type i) = Some w"
    and "severity i = ''error''"
  shows "issueWeight i = jsmul w (lit (6 / 5))"
  using assms by (simp add: issueWeight_def typeWeight_table severityMultiplier_def)

lemma two_errors_score:
  assumes i: "issue_type i = ''spelling''" "severity i = ''error''" "\<not> isCapitalizationIssue i"
    and j: "issue_type j = ''grammar''" "severity j = ''error''" "\<not> isCapitalizationIssue j"
    and iss: "iss = [i, j] \<or> iss = [j, i]"
  shows "grammarScore iss 10 = Num (8162774324609025 / 140737488355328)"
proof -
  from i have wi: "issueWeight i = jsmul (lit 2) (lit (6 / 5))"
    by (intro error_weight) (simp_all add: typeWeights_def)
  from j have wj: "issueWeight j = jsmul (lit (3 / 2)) (lit (6 / 5))"
    by (intro error_weight) (simp_all add: typeWeights_def)
  have e: "errorRate iss 10 = Num (5910974510923775 / 140737488355328)"
    using iss
  proof
    assume "iss = [i, j]"
    then have "errorRate iss 10 =
      jsmul (jsdiv (jsadd (jsadd (lit 0) (issueWeight i)) (issueWeight j)) (Num (of_nat 10)))
        (lit 100)"
      by (simp add: errorRate_def weightedErrors_def)
    then show ?thesis by (simp only: wi wj two_error_facts)
  next
    assume "iss = [j, i]"
    then have "errorRate iss 10 =
      jsmul (jsdiv (jsadd (jsadd (lit 0) (issueWeight j)) (issueWeight i)) (Num (of_nat 10)))
        (lit 100)"
      by (simp add: errorRate_def weightedErrors_def)
    then show ?thesis by (simp only: wi wj two_error_facts)
  qed
  show ?thesis
    unfolding grammarScore_def e by (simp only: two_error_facts)
qed

lemma formula_58:
  "jssub (lit 100)
     (jsmul (jsdiv (jsadd (jsmul (lit 2) (lit (6 / 5))) (jsmul (lit (3 / 2)) (lit (6 / 5))))
               (lit 10))
        (lit 100)) = Num (8162774324609025 / 140737488355328)"
proof -
  have "lit 10 = Num 10" unfolding lit_def by code_simp
  then show ?thesis by (simp only: two_error_facts)
qed

lemma ten_words_count: "totalWords ten_words = 10"
  unfolding ten_words_def by code_simp

lemma errors_overlap: "overlaps spelling_error grammar_error"
  by (simp add: overlaps_def spelling_error_def grammar_error_def)

text \<open>
  Claim C5, as stated, fails in its last equation: for the two overlapping errors on the
  ten-word text the card computes a score that is not \<open>58\<close>.
\<close>

theorem overlapping_errors_score_is_not_58:
  "overlaps spelling_error grammar_error \<and>
   totalWords ten_words = 10 \<and>
   GrammarScoreCard (Some (response ten_words [spelling_error, grammar_error])) \<noteq> Some (Num 58)"
proof -
  have "grammarScore [spelling_error, grammar_error] 10 =
      Num (8162774324609025 / 140737488355328)"
    by (rule two_errors_score [of spelling_error grammar_error])
       (simp_all add: spelling_error_not_capital grammar_error_not_capital,
        simp_all add: spelling_error_def grammar_error_def)
  with errors_overlap ten_words_count show ?thesis
    by (simp add: response_def)
qed

text \<open>
  Claim C5, amended. Two overlapping issues, one of type spelling and one of type
  grammar, both of severity error and neither indicating a capitalization problem, on a
  ten-word text are not merged: in either order each adds its full weight, and the score
  is \<open>100 - ((2.0 \<times> 1.2 + 1.5 \<times> 1.2) / 10 \<times> 100)\<close> computed in the arithmetic of the program,
  which is \<open>58 + 2\<^sup>-\<^sup>4\<^sup>7\<close> and is shown, rounded, as \<open>58\<close>.
\<close>

theorem overlapping_errors_score:
  assumes "issue_type i = ''spelling''" and "severity i = ''error''"
    and "\<not> isCapitalizationIssue i"
    and "issue_type j = ''grammar''" and "severity j = ''error''"
    and "\<not> isCapitalizationIssue j"
    and "overlaps i j"
    and "issues r = [i, j] \<or> issues r = [j, i]"
    and "totalWords (response_text r) = 10"
  shows "GrammarScoreCard (Some r) =
           Some (jssub (lit 100)
             (jsmul (jsdiv (jsadd (jsmul (lit 2) (lit (6 / 5))) (jsmul (lit (3 / 2)) (lit (6 / 5))))
                       (lit 10)) (lit 100))) \<and>
         GrammarScoreCard (Some r) = Some (Num (58 + 1 / 2 ^ 47)) \<and>
         displayedScore (Some r) = Some (Num 58)"
proof -
  have v: "(58 + 1 / 2 ^ 47 :: rat) = 8162774324609025 / 140737488355328" by simp
  from assms have "grammarScore (issues r) 10 = Num (8162774324609025 / 140737488355328)"
    by (intro two_errors_score [of i j]) simp_all
  with assms(9) show ?thesis
    by (simp only: GrammarScoreCard.simps displayedScore_def formula_58 v round_58
        option.map simp_thms)
qed

theorem overlapping_errors_score_witness:
  "overlaps spelling_error grammar_error \<and>
   totalWords (response_text (response ten_words [spelling_error, grammar_error])) = 10 \<and>
   GrammarScoreCard (Some (response ten_words [spelling_error, grammar_error])) =
     Some (Num (58 + 1 / 2 ^ 47)) \<and>
   displayedScore (Some (response ten_words [spelling_error, grammar_error])) = Some (Num 58)"
proof -
  let ?r = "response ten_words [spelling_error, grammar_error]"
  have n: "totalWords (response_text ?r) = 10"
    by (simp add: response_def ten_words_count)
  have l: "issues ?r = [spelling_error, grammar_error] \<or>
      issues ?r = [grammar_error, spelling_error]"
    by (simp add: response_def)
  have a: "issue_type spelling_error = ''spelling''" "severity spelling_error = ''error''"
    by (simp_all add: spelling_error_def)
  have b: "issue_type grammar_error = ''grammar''" "severity grammar_error = ''error''"
    by (simp_all add: grammar_error_def)
  from overlapping_errors_score [OF a spelling_error_not_capital b grammar_error_not_capital
      errors_overlap l n] errors_overlap n
  show ?thesis by blast
qed

section \<open>The length check of an analysis request\<close>

lemma too_short_message_includes: "string_includes too_short_message ''too short''"
  unfolding too_short_message_def by code_simp

lemma messages_differ:
  "enter_text_message \<noteq> too_short_message"
  "content_too_short_message \<noteq> too_short_message"
  "''An unexpected error occurred.'' \<noteq> too_short_message"
  by (simp_all add: enter_text_message_def too_short_message_def content_too_short_message_def)

text \<open>The \<^verbatim>\<open>catch\<close> block never shows the message of the length check.\<close>

lemma catch_message_not_guard: "catch_message m \<noteq> too_short_message"
proof (cases m)
  case None
  then show ?thesis by (simp add: catch_message_def messages_differ)
next
  case (Some t)
  show ?thesis
  proof (cases "string_includes t ''too short''")
    case True
    with Some show ?thesis by (simp add: catch_message_def messages_differ)
  next
    case False
    with too_short_message_includes have "t \<noteq> too_short_message" by auto
    with Some False show ?thesis by (simp add: catch_message_def messages_differ)
  qed
qed

lemma errorMessage_take_analyzed_text:
  "errorMessage (take_analyzed_text a st) = errorMessage st"
  by (simp add: take_analyzed_text_def split: option.splits)

text \<open>
  Claim C7, as stated, fails: a request can end with an error that says the text is too
  short although a file is attached, or although the trimmed text has 15 characters or
  more, and after the analyses were requested. This is the error of the backend that the
  \<^verbatim>\<open>catch\<close> block shows as content that is too short.
\<close>

theorem backend_reports_too_short_text:
  "selectedFile image_state \<noteq> None \<and>
   too_short_error
     (handleAnalyze (Rejects (Some ''Extracted text is too short to analyze.'')) image_state) \<and>
   requests
     (handleAnalyze (Rejects (Some ''Extracted text is too short to analyze.'')) image_state)
     \<noteq> requests image_state \<and>
   selectedFile long_text_state = None \<and>
   15 \<le> length (trim (textToAnalyze long_text_state)) \<and>
   too_short_error
     (handleAnalyze (Rejects (Some ''Text is too short for analysis'')) long_text_state)"
  unfolding image_state_def long_text_state_def by code_simp

text \<open>
  Claim C7, amended. The length check of \<^verbatim>\<open>handleAnalyze\<close> ends a request with the message
  \<^verbatim>\<open>Text is too short. Please provide at least 15 characters for analysis.\<close> exactly when no
  file is attached and the trimmed text is not empty and shorter than 15 characters;
  this rejection comes before any analysis is requested (no request is issued and the
  loading flag is untouched), and a text of 15 or more trimmed characters is never
  rejected by it, whatever the backend answers.
\<close>

theorem length_check_rejects_short_text_only:
  "(errorMessage (handleAnalyze env st) = Some too_short_message \<longleftrightarrow>
      selectedFile st = None \<and> trim (textToAnalyze st) \<noteq> [] \<and>
      length (trim (textToAnalyze st)) < 15) \<and>
   (selectedFile st = None \<and> trim (textToAnalyze st) \<noteq> [] \<and>
      length (trim (textToAnalyze st)) < 15 \<longrightarrow>
      requests (handleAnalyze env st) = requests st \<and>
      isLoading (handleAnalyze env st) = isLoading st) \<and>
   (15 \<le> length (trim (textToAnalyze st)) \<longrightarrow>
      errorMessage (handleAnalyze env st) \<noteq> Some too_short_message)"
  by (cases env)
     (auto simp: handleAnalyze_def Let_def messages_differ catch_message_not_guard
        errorMessage_take_analyzed_text)

theorem length_check_rejects_short_text_only_witness:
  "selectedFile short_text_state = None \<and>
   trim (textToAnalyze short_text_state) = ''too little'' \<and>
   errorMessage (handleAnalyze (Completes None) short_text_state) = Some too_short_message \<and>
   requests (handleAnalyze (Completes None) short_text_state) = requests short_text_state \<and>
   15 \<le> length (trim (textToAnalyze long_text_state)) \<and>
   errorMessage (handleAnalyze (Rejects (Some too_short_message)) long_text_state)
     \<noteq> Some too_short_message"
proof -
  have f: "selectedFile short_text_state = None"
    by (simp add: short_text_state_def)
  have t: "trim (textToAnalyze short_text_state) = ''too little''"
    unfolding short_text_state_def by code_simp
  have l: "15 \<le> length (trim (textToAnalyze long_text_state))"
    unfolding long_text_state_def by code_simp
  from t have n: "trim (textToAnalyze short_text_state) \<noteq> []"
    and s: "length (trim (textToAnalyze short_text_state)) < 15"
    by simp_all
  from length_check_rejects_short_text_only [of "Completes None" short_text_state] f n s
  have a: "errorMessage (handleAnalyze (Completes None) short_text_state) = Some too_short_message"
    and b: "requests (handleAnalyze (Completes None) short_text_state) = requests short_text_state"
    by blast+
  from length_check_rejects_short_text_only [of "Rejects (Some too_short_message)" long_text_state] l
  have c: "errorMessage (handleAnalyze (Rejects (Some too_short_message)) long_text_state)
      \<noteq> Some too_short_message"
    by blast
  from f t a b l c show ?thesis by blast
qed

section \<open>Vocabulary of a text that is not English\<close>

text \<open>With the sample lexicon, an English text does fill the groups.\<close>

lemma english_scenario:
  "proficient (classifyVocabulary sample_lexicon
      [''The'', ''ubiquitous'', ''paradigm'', ''shift''] ''English'') =
     [''ubiquitous'', ''paradigm'']"
  unfolding sample_lexicon_def by code_simp

text \<open>
  The card of \<^verbatim>\<open>Analyzer.tsx\<close>, line 2943, shows no word groups when the grammar check has
  detected Tagalog.
\<close>

lemma card_hidden_for_tagalog:
  "detected_language g = ''tl'' \<Longrightarrow> \<not> cefr_card_shown groups (Some g)"
  by (simp add: cefr_card_shown_def)

text \<open>
  Claim C8. For every list of words and every lexicon, classifying the vocabulary with a
  language other than English, such as Filipino, returns empty word groups.
\<close>

theorem non_english_vocabulary_is_not_classified:
  "lang \<noteq> ''English'' \<Longrightarrow>
     classifyVocabulary lexicon ws lang = empty_groups \<and>
     basic (classifyVocabulary lexicon ws lang) = [] \<and>
     independent (classifyVocabulary lexicon ws lang) = [] \<and>
     proficient (classifyVocabulary lexicon ws lang) = []"
  by (simp add: classifyVocabulary_def empty_groups_def)

theorem non_english_vocabulary_is_not_classified_witness:
  "''Filipino'' \<noteq> ''English'' \<and>
   classifyVocabulary sample_lexicon [''The'', ''ubiquitous'', ''paradigm'', ''shift'']
     ''Filipino'' = empty_groups \<and>
   proficient (classifyVocabulary sample_lexicon
     [''The'', ''ubiquitous'', ''paradigm'', ''shift''] ''Filipino'') = []"
proof -
  have d: "''Filipino'' \<noteq> ''English''" by simp
  from non_english_vocabulary_is_not_classified [OF d, of sample_lexicon
      "[''The'', ''ubiquitous'', ''paradigm'', ''shift'']"] d
  show ?thesis by blast
qed

end
